theory Spec2Isabelle
  imports Complex_Main
begin

section \<open>JavaScript values\<close>

text \<open>
  The front end is JavaScript, whose numbers are IEEE 754 binary64 values: \<open>NaN\<close>, the
  two infinities, the negative zero, and the finite values, kept here as the real they
  denote (\<open>Num 0\<close> is the positive zero). A finite double is \<open>m * 2 ^ q\<close> with
  \<open>|m| < 2 ^ 53\<close> and \<open>- 1074 \<le> q \<le> 971\<close>. A string value is only compared or handed to
  \<open>parseFloat\<close>, and is kept as an Isabelle string. A plain object is an association list
  of its own properties.
\<close>

datatype jsnum = NaN | PosInf | NegInf | NegZero | Num real

datatype jsval =
    JUndefined
  | JNull
  | JBool bool
  | JNum jsnum
  | JStr string
  | JObj "(string \<times> jsval) list"

text \<open>The number of binary digits of a positive integer, \<open>0\<close> for the others.\<close>

function bit_length :: "int \<Rightarrow> nat" where
  "bit_length n = (if n \<le> 0 then 0 else Suc (bit_length (n div 2)))"
  by pat_completeness auto
termination
  by (relation "measure nat") auto

declare bit_length.simps [simp del]

definition pow2 :: "int \<Rightarrow> real" where
  "pow2 k = (if 0 \<le> k then 2 ^ nat k else 1 / 2 ^ nat (- k))"

text \<open>For \<open>a > 0\<close>, the integer \<open>e\<close> with \<open>2 ^ e \<le> a < 2 ^ (e + 1)\<close>.\<close>

definition floor_log2 :: "real \<Rightarrow> int" where
  "floor_log2 a =
     (if 1 \<le> a then int (bit_length \<lfloor>a\<rfloor>) - 1
      else - int (bit_length (\<lceil>1 / a\<rceil> - 1)))"

text \<open>The nearest integer, the even one of the two when \<open>r\<close> is half-way.\<close>

definition round_half_even :: "real \<Rightarrow> int" where
  "round_half_even r =
     (let f = \<lfloor>r\<rfloor>; d = r - of_int f
      in if d < 1 / 2 then f else if 1 / 2 < d then f + 1 else if even f then f else f + 1)"

text \<open>
  Rounding of a positive real to the nearest double, ties to even: the spacing of the
  doubles around \<open>a\<close> is \<open>2 ^ q\<close> with \<open>q = max (e - 52) (- 1074)\<close>, and a result of
  \<open>2 ^ 1024\<close> or more is an overflow (\<open>None\<close>).
\<close>

definition round_magnitude :: "real \<Rightarrow> real option" where
  "round_magnitude a =
     (let q = max (floor_log2 a - 52) (- 1074);
          r = of_int (round_half_even (a / pow2 q)) * pow2 q
      in if 2 ^ 1024 \<le> r then None else Some r)"

definition round_double :: "real \<Rightarrow> jsnum" where
  "round_double x =
     (if x = 0 then Num 0
      else if 0 < x then (case round_magnitude x of None \<Rightarrow> PosInf | Some r \<Rightarrow> Num r)
      else (case round_magnitude (- x) of
              None \<Rightarrow> NegInf
            | Some r \<Rightarrow> if r = 0 then NegZero else Num (- r)))"

text \<open>
  \<open>a - b\<close> on numbers: \<open>NaN\<close> when an operand is \<open>NaN\<close> or both are the same infinity,
  the infinity of the right sign when one operand is infinite, and otherwise the exact
  difference rounded to the nearest double. A difference that is zero is the positive
  zero, except for \<open>(-0) - (+0)\<close>.
\<close>

fun js_sub :: "jsnum \<Rightarrow> jsnum \<Rightarrow> jsnum" where
  "js_sub NaN _ = NaN"
| "js_sub _ NaN = NaN"
| "js_sub PosInf PosInf = NaN"
| "js_sub NegInf NegInf = NaN"
| "js_sub PosInf _ = PosInf"
| "js_sub NegInf _ = NegInf"
| "js_sub _ PosInf = NegInf"
| "js_sub _ NegInf = PosInf"
| "js_sub NegZero NegZero = Num 0"
| "js_sub NegZero (Num b) = (if b = 0 then NegZero else round_double (- b))"
| "js_sub (Num a) NegZero = round_double a"
| "js_sub (Num a) (Num b) = round_double (a - b)"

text \<open>\<open>isNaN\<close> on a number.\<close>

fun isNaN :: "jsnum \<Rightarrow> bool" where
  "isNaN NaN = True"
| "isNaN _ = False"

text \<open>\<open>x <= 0\<close> on numbers: every comparison with \<open>NaN\<close> is false.\<close>

fun js_le_zero :: "jsnum \<Rightarrow> bool" where
  "js_le_zero NaN = False"
| "js_le_zero PosInf = False"
| "js_le_zero NegInf = True"
| "js_le_zero NegZero = True"
| "js_le_zero (Num a) = (a \<le> 0)"

text \<open>
  \<open>v == null\<close> (loose equality) holds for \<open>null\<close> and \<open>undefined\<close> and for nothing else.
\<close>

fun loose_eq_null :: "jsval \<Rightarrow> bool" where
  "loose_eq_null JNull = True"
| "loose_eq_null JUndefined = True"
| "loose_eq_null _ = False"

text \<open>
  \<open>parseFloat(v)\<close> converts its argument to a string and reads the longest prefix of it
  that is a decimal literal. The reading of a string is the parameter \<open>pf\<close>. A number
  prints to a string that reads back as itself, the negative zero apart, which prints
  as \<open>"0"\<close>; \<open>null\<close>, \<open>undefined\<close>, the booleans and a plain object print as \<open>"null"\<close>,
  \<open>"undefined"\<close>, \<open>"true"\<close>/\<open>"false"\<close> and \<open>"[object Object]"\<close>, none of which starts a
  decimal literal, so the result is \<open>NaN\<close>.
\<close>

fun parseFloat :: "(string \<Rightarrow> jsnum) \<Rightarrow> jsval \<Rightarrow> jsnum" where
  "parseFloat pf (JNum n) = (if n = NegZero then Num 0 else n)"
| "parseFloat pf (JStr s) = pf s"
| "parseFloat pf _ = NaN"


section \<open>Trade journal: profit and loss (JournalView.js)\<close>

text \<open>
  The fields of a trade that \<open>calcPnL\<close> reads. They come from a JSON response, so each
  is a JavaScript value; a property that is missing reads as \<open>undefined\<close>.
\<close>

record trade =
  trade_type :: jsval
  status :: jsval
  entry_price :: jsval
  exit_price :: jsval

text \<open>
  \<^verbatim>\<open>
  function calcPnL(trade) {
    if (trade.status !== 'CLOSED' || trade.exit_price == null) return null;
    const entry = parseFloat(trade.entry_price);
    const exit = parseFloat(trade.exit_price);
    if (trade.trade_type === 'LONG') return exit - entry;
    if (trade.trade_type === 'SHORT') return entry - exit;
    return null;
  }
  \<close>
\<close>

definition calcPnL :: "(string \<Rightarrow> jsnum) \<Rightarrow> trade \<Rightarrow> jsval" where
  "calcPnL pf t =
     (if status t \<noteq> JStr ''CLOSED'' \<or> loose_eq_null (exit_price t) then JNull
      else let entry = parseFloat pf (entry_price t);
               exit = parseFloat pf (exit_price t)
           in if trade_type t = JStr ''LONG'' then JNum (js_sub exit entry)
              else if trade_type t = JStr ''SHORT'' then JNum (js_sub entry exit)
              else JNull)"


section \<open>Strings that are looked into\<close>

text \<open>
  The editor and the calculator forms trim and upper-case the text of their fields, so
  there a string is the list of its code points. \<open>str\<close> gives the code points of an ASCII
  literal.
\<close>

type_synonym jsstring = "nat list"

definition str :: "string \<Rightarrow> jsstring" where
  "str s = map of_char s"

text \<open>
  The white space and line terminators of the language, which \<open>trim\<close> removes from both
  ends: tab, line feed, vertical tab, form feed, carriage return, space, no-break space,
  U+1680, U+2000 to U+200A, the line and paragraph separators, U+202F, U+205F, U+3000
  and U+FEFF.
\<close>

definition is_space :: "nat \<Rightarrow> bool" where
  "is_space c =
     (c \<in> set [0x09, 0x0A, 0x0B, 0x0C, 0x0D, 0x20, 0xA0, 0x1680,
                0x2000, 0x2001, 0x2002, 0x2003, 0x2004, 0x2005, 0x2006, 0x2007, 0x2008,
                0x2009, 0x200A, 0x2028, 0x2029, 0x202F, 0x205F, 0x3000, 0xFEFF])"

definition trim :: "jsstring \<Rightarrow> jsstring" where
  "trim s = rev (dropWhile is_space (rev (dropWhile is_space s)))"

text \<open>
  \<open>toUpperCase\<close> replaces each code point by its upper-case mapping of the Unicode
  character database, which may be several code points (sharp s gives \<open>SS\<close>). The table
  is the parameter \<open>up\<close>.
\<close>

definition toUpperCase :: "(nat \<Rightarrow> nat list) \<Rightarrow> jsstring \<Rightarrow> jsstring" where
  "toUpperCase up s = concat (map up s)"

text \<open>The table on the ASCII letters, for the examples.\<close>

definition ascii_upper :: "nat \<Rightarrow> nat list" where
  "ascii_upper c = (if 97 \<le> c \<and> c \<le> 122 then [c - 32] else [c])"


section \<open>Watchlist editor (TickerManager component)\<close>

text \<open>
  The component's state that the editor changes: the ticker list and the text field.
\<close>

record ticker_manager =
  tickers :: "jsstring list"
  input :: jsstring

text \<open>
  \<^verbatim>\<open>
  const addTicker = () => {
    const sym = (input || '').trim().toUpperCase();
    if (!sym) return;
    if (!tickers.includes(sym)) setTickers((prev) => [...prev, sym]);
    setInput('');
  };
  \<close>
  The handler reads \<open>input\<close> and \<open>tickers\<close> of the render that created it, the state
  \<open>r\<close>, and its updates apply to the state \<open>s\<close> that the component has when they run.
  \<open>input\<close> is always a string, and \<open>input || ''\<close> is that string. The source's \<open>sym\<close>
  is \<open>symbol\<close> here.
\<close>

definition addTicker ::
    "(nat \<Rightarrow> nat list) \<Rightarrow> ticker_manager \<Rightarrow> ticker_manager \<Rightarrow> ticker_manager" where
  "addTicker up r s =
     (let symbol = toUpperCase up (trim (input r))
      in if symbol = [] then s
         else (if symbol \<notin> set (tickers r) then s\<lparr>tickers := tickers s @ [symbol]\<rparr> else s)
                \<lparr>input := []\<rparr>)"

text \<open>
  \<^verbatim>\<open>
  const removeTicker = (sym) => {
    setTickers((prev) => prev.filter((t) => t !== sym));
  };
  \<close>
\<close>

definition removeTicker :: "jsstring \<Rightarrow> ticker_manager \<Rightarrow> ticker_manager" where
  "removeTicker symbol s = s\<lparr>tickers := filter (\<lambda>t. t \<noteq> symbol) (tickers s)\<rparr>"

text \<open>
  What happens to the editor: the user types into the field
  (\<open>setInput(e.target.value)\<close>), presses Add, presses the delete button of an entry; and
  the request of the mount effect resolves with an array, which replaces the list
  unchecked:
  \<^verbatim>\<open>
        const r = await axios.get(`${apiBase}/api/tickers`, { timeout: 15000 });
        if (!ignore && Array.isArray(r.data)) {
          setTickers(r.data);
        }
  \<close>
  The component renders after each of these, so the handler of the next event was created
  on the current state.
\<close>

datatype editor_event =
    SetInput jsstring
  | AddTicker
  | RemoveTicker jsstring
  | Loaded "jsstring list"

fun editor_step ::
    "(nat \<Rightarrow> nat list) \<Rightarrow> ticker_manager \<Rightarrow> editor_event \<Rightarrow> ticker_manager" where
  "editor_step up s (SetInput v) = s\<lparr>input := v\<rparr>"
| "editor_step up s AddTicker = addTicker up s s"
| "editor_step up s (RemoveTicker symbol) = removeTicker symbol s"
| "editor_step up s (Loaded l) = s\<lparr>tickers := l\<rparr>"

definition editor_run ::
    "(nat \<Rightarrow> nat list) \<Rightarrow> editor_event list \<Rightarrow> ticker_manager \<Rightarrow> ticker_manager" where
  "editor_run up evs s = foldl (editor_step up) s evs"

text \<open>The state of \<open>useState([])\<close> and \<open>useState('')\<close>.\<close>

definition editor_init :: ticker_manager where
  "editor_init = \<lparr>tickers = [], input = []\<rparr>"


section \<open>Position size requests of the two calculator forms\<close>

text \<open>
  Both calculator components keep three text fields and send, when the fields pass the
  checks, one GET request to \<open>/api/calculate_position_size\<close> with the query parameters
  \<open>account\<close>, \<open>risk\<close>, \<open>entry\<close> and \<open>sl\<close>. The model returns what a click does: the
  message set with \<open>setError\<close> when a check fails and nothing is sent, or the parameters
  of the request.
\<close>

record calculator_form =
  accountSize :: jsstring
  entryPrice :: jsstring
  stopLossPrice :: jsstring

record request_params =
  account :: jsnum
  risk :: jsnum
  entry :: jsnum
  sl :: jsnum

datatype click_outcome = Rejected string | Issued request_params

text \<open>
  RiskCalculator component. \<open>Number(v)\<close> on a string is the parameter \<open>num\<close>.
  \<^verbatim>\<open>
  const isInvalid = (v) => v === '' || isNaN(Number(v)) || Number(v) <= 0;

  const calculate = async () => {
    if (isInvalid(accountSize) || isInvalid(entryPrice) || isInvalid(stopLossPrice)) {
      setError('Please enter valid values (> 0)');
      return;
    }
    ...
      const response = await axios.get(`${apiBase}/api/calculate_position_size`, {
        params: { account: Number(accountSize), risk: 1, entry: Number(entryPrice),
                  sl: Number(stopLossPrice) },
        timeout: 10000,
      });
  \<close>
\<close>

definition isInvalid :: "(jsstring \<Rightarrow> jsnum) \<Rightarrow> jsstring \<Rightarrow> bool" where
  "isInvalid num v = (v = [] \<or> isNaN (num v) \<or> js_le_zero (num v))"

definition calculate :: "(jsstring \<Rightarrow> jsnum) \<Rightarrow> calculator_form \<Rightarrow> click_outcome" where
  "calculate num f =
     (if isInvalid num (accountSize f) \<or> isInvalid num (entryPrice f)
         \<or> isInvalid num (stopLossPrice f)
      then Rejected ''Please enter valid values (> 0)''
      else Issued \<lparr>account = num (accountSize f), risk = Num 1,
                    entry = num (entryPrice f), sl = num (stopLossPrice f)\<rparr>)"

text \<open>
  App.js, the single-file front end. \<open>parseFloat\<close> on a string is the parameter \<open>pf\<close>.
  \<^verbatim>\<open>
  const handleCalculatePositionSize = async () => {
    if (!accountSize.trim() || !entryPrice.trim() || !stopLossPrice.trim()) {
      setPositionSizeError('Please fill in all fields');
      return;
    }
    const account = parseFloat(accountSize);
    const entry = parseFloat(entryPrice);
    const stopLoss = parseFloat(stopLossPrice);
    if (isNaN(account) || isNaN(entry) || isNaN(stopLoss)) {
      setPositionSizeError('Please enter valid numeric values');
      return;
    }
    if (account <= 0 || entry <= 0 || stopLoss <= 0) {
      setPositionSizeError('All values must be greater than 0');
      return;
    }
    ...
      const response = await axios.get(
        `${API_BASE_URL}/api/calculate_position_size`,
        { params: { account: account,
                    risk: 1, // Hardcoded to 1% as requested
                    entry: entry,
                    sl: stopLoss }, ...
  \<close>
\<close>

definition handleCalculatePositionSize ::
    "(jsstring \<Rightarrow> jsnum) \<Rightarrow> calculator_form \<Rightarrow> click_outcome" where
  "handleCalculatePositionSize pf f =
     (if trim (accountSize f) = [] \<or> trim (entryPrice f) = [] \<or> trim (stopLossPrice f) = []
      then Rejected ''Please fill in all fields''
      else let acc = pf (accountSize f);
               ent = pf (entryPrice f);
               stopLoss = pf (stopLossPrice f)
           in if isNaN acc \<or> isNaN ent \<or> isNaN stopLoss
              then Rejected ''Please enter valid numeric values''
              else if js_le_zero acc \<or> js_le_zero ent \<or> js_le_zero stopLoss
              then Rejected ''All values must be greater than 0''
              else Issued \<lparr>account = acc, risk = Num 1, entry = ent, sl = stopLoss\<rparr>)"


section \<open>Position sizing calculator (back end)\<close>

text \<open>
  The two forms above send their request to \<open>calculate_position_size\<close> of the Python
  back end, which is not among the sources. Its errors and its result, as section 4.4 of
  the specification names them:
\<close>

datatype sizing_error = ValidationError | InvalidRiskParametersError

record PositionSizePlan =
  risk_amount :: real
  risk_per_share :: real
  max_shares :: int
  total_investment :: real

text \<open>
  Modelled from the spec: \<open>calculate_position_size\<close>, whose Python source is missing.
  Section 4.4, over the reals: the inputs must be positive (\<open>ValidationError\<close> otherwise),
  entry and stop-loss must differ (\<open>InvalidRiskParametersError\<close> otherwise), and the
  plan is \<open>risk_amount = account_size * risk_percent / 100\<close>,
  \<open>risk_per_share = |entry_price - stop_loss_price|\<close>,
  \<open>max_shares = floor (risk_amount / risk_per_share)\<close>,
  \<open>total_investment = max_shares * entry_price\<close>.
\<close>

definition calculate_position_size ::
    "real \<Rightarrow> real \<Rightarrow> real \<Rightarrow> real \<Rightarrow> sizing_error + PositionSizePlan" where
  "calculate_position_size account_size risk_percent entry_p stop_loss_p =
     (if account_size \<le> 0 \<or> risk_percent \<le> 0 \<or> entry_p \<le> 0 \<or> stop_loss_p \<le> 0
      then Inl ValidationError
      else if entry_p = stop_loss_p then Inl InvalidRiskParametersError
      else let ra = account_size * risk_percent / 100;
               rps = \<bar>entry_p - stop_loss_p\<bar>;
               ms = \<lfloor>ra / rps\<rfloor>
           in Inr \<lparr>risk_amount = ra, risk_per_share = rps, max_shares = ms,
                   total_investment = of_int ms * entry_p\<rparr>)"

text \<open>
  Modelled from the spec: the error classes of the missing back end. The taxonomy of
  section 7 files both non-positive inputs and equal entry and stop-loss under
  \<open>ValidationError\<close>, so \<open>InvalidRiskParametersError\<close> is one kind of validation failure.
\<close>

fun is_validation_failure :: "sizing_error \<Rightarrow> bool" where
  "is_validation_failure ValidationError = True"
| "is_validation_failure InvalidRiskParametersError = True"


section \<open>Dashboard summaries of a watchlist (App.js)\<close>

text \<open>
  \<^verbatim>\<open>
  const fetchDashboardSummaries = async () => {
    const entries = await Promise.all(TICKERS.map(async (t) => {
      try {
        const r = await axios.get(`${API_BASE_URL}/analyze/${t}`, { timeout: 25000 });
        return [t, { final_signal: r.data.final_signal }];
      } catch { return [t, { final_signal: 'N/A' }]; }
    }));
    setSummaries(Object.fromEntries(entries));
  };
  \<close>
  The analysis service is the parameter \<open>get\<close>: for a ticker, \<open>None\<close> when the request
  is rejected (network failure, timeout, an error status) and \<open>Some d\<close> when it resolves
  with \<open>r.data = d\<close>. \<open>Promise.all\<close> keeps the order of \<open>TICKERS\<close>, and no promise of the
  list can reject, since the whole body of each is inside \<open>try\<close>.
\<close>

text \<open>
  \<open>d.final_signal\<close>: reading a property of \<open>null\<close> or \<open>undefined\<close> throws (\<open>None\<close>);
  an object gives the property or \<open>undefined\<close>; a boolean, number or string has no such
  property.
\<close>

fun get_prop :: "string \<Rightarrow> jsval \<Rightarrow> jsval option" where
  "get_prop k JUndefined = None"
| "get_prop k JNull = None"
| "get_prop k (JObj props) = Some (case map_of props k of None \<Rightarrow> JUndefined | Some v \<Rightarrow> v)"
| "get_prop k _ = Some JUndefined"

definition not_available :: jsval where
  "not_available = JObj [(''final_signal'', JStr ''N/A'')]"

definition summary_entry :: "(string \<Rightarrow> jsval option) \<Rightarrow> string \<Rightarrow> string \<times> jsval" where
  "summary_entry get t =
     (case get t of
        None \<Rightarrow> (t, not_available)
      | Some d \<Rightarrow>
          (case get_prop ''final_signal'' d of
             None \<Rightarrow> (t, not_available)
           | Some v \<Rightarrow> (t, JObj [(''final_signal'', v)])))"

text \<open>\<open>Object.fromEntries\<close>: the pairs are stored in order, a later pair replacing an
  earlier one with the same key.\<close>

definition fromEntries :: "(string \<times> jsval) list \<Rightarrow> (string \<rightharpoonup> jsval)" where
  "fromEntries es = foldl (\<lambda>m (k, v). m(k \<mapsto> v)) Map.empty es"

definition fetchDashboardSummaries ::
    "(string \<Rightarrow> jsval option) \<Rightarrow> string list \<Rightarrow> (string \<rightharpoonup> jsval)" where
  "fetchDashboardSummaries get TICKERS = fromEntries (map (summary_entry get) TICKERS)"

text \<open>A consensus result as the analysis service sends it, and a service that answers
  for ticker \<open>A\<close> only.\<close>

definition example_result :: jsval where
  "example_result =
     JObj [(''ticker'', JStr ''A''), (''final_signal'', JStr ''BUY''),
           (''confidence'', JStr ''Moderate consensus''), (''total_score'', JNum (Num 2))]"

definition example_service :: "string \<Rightarrow> jsval option" where
  "example_service t = (if t = ''A'' then Some example_result else None)"


section \<open>Consensus engine (back end)\<close>

text \<open>
  The consensus engine is the method \<open>get_final_signal\<close> of the Python class
  \<open>QuantCodeAnalyzer\<close>, which is not among the sources; the integration guide and section
  4.3 of the specification describe it. The data it works on, as section 3 has it (the
  ticker, the closing price, the confidence label and the raw values of an indicator
  play no part in the vote and are left out):
\<close>

datatype signal = BUY | SELL | HOLD

record IndicatorResult =
  name :: string
  signal :: signal
  score :: int
  details :: string

record ConsensusResult =
  final_signal :: signal
  total_score :: int
  buy_votes :: nat
  sell_votes :: nat
  hold_votes :: nat
  indicators :: "IndicatorResult list"

text \<open>
  Modelled from the spec: the tally of the missing \<open>get_final_signal\<close>. Section 4.3:
  \<open>buy_votes\<close>, \<open>sell_votes\<close> and \<open>hold_votes\<close> count the signal values.
\<close>

definition count_votes :: "signal \<Rightarrow> IndicatorResult list \<Rightarrow> nat" where
  "count_votes v rs = length (filter (\<lambda>r. signal r = v) rs)"

text \<open>
  Modelled from the spec: \<open>get_final_signal\<close>, whose Python source is missing. Section
  4.3 and the integration guide: the final signal is BUY when at least two indicators
  vote BUY and more vote BUY than SELL, SELL when at least two vote SELL and more vote
  SELL than BUY, and HOLD otherwise; the total score is the sum of the scores.
\<close>

definition get_final_signal :: "IndicatorResult list \<Rightarrow> ConsensusResult" where
  "get_final_signal rs =
     (let b = count_votes BUY rs;
          s = count_votes SELL rs;
          h = count_votes HOLD rs
      in \<lparr>final_signal = (if b \<ge> 2 \<and> b > s then BUY
                           else if s \<ge> 2 \<and> s > b then SELL
                           else HOLD),
           total_score = sum_list (map score rs),
           buy_votes = b, sell_votes = s, hold_votes = h,
           indicators = rs\<rparr>)"


section \<open>Heiken-Ashi transform (back end)\<close>

text \<open>
  The transform is part of \<open>analyze_heiken_ashi\<close>, Python code that is not among the
  sources; the technical documentation gives its four formulas and section 3 of the
  specification the seed of the first bar. Prices are reals here.
\<close>

record Bar =
  Open :: real
  High :: real
  Low :: real
  Close :: real

record HeikenAshiBar =
  HA_Open :: real
  HA_High :: real
  HA_Low :: real
  HA_Close :: real

text \<open>
  Modelled from the spec: one bar of the missing Heiken-Ashi computation, given its
  \<open>HA_Open\<close>. The documentation: \<open>HA_Close = (Open + High + Low + Close) / 4\<close>,
  \<open>HA_High = MAX(Current High, HA_Open, HA_Close)\<close>,
  \<open>HA_Low = MIN(Current Low, HA_Open, HA_Close)\<close>.
\<close>

definition ha_bar :: "real \<Rightarrow> Bar \<Rightarrow> HeikenAshiBar" where
  "ha_bar ha_open b =
     (let ha_close = (Open b + High b + Low b + Close b) / 4
      in \<lparr>HA_Open = ha_open,
           HA_High = max (High b) (max ha_open ha_close),
           HA_Low = min (Low b) (min ha_open ha_close),
           HA_Close = ha_close\<rparr>)"

text \<open>
  Modelled from the spec: the loop of the missing Heiken-Ashi computation over the bars
  after the first, oldest first, carrying the previous Heiken-Ashi bar:
  \<open>HA_Open = (Previous HA_Open + Previous HA_Close) / 2\<close>.
\<close>

fun ha_from :: "HeikenAshiBar \<Rightarrow> Bar list \<Rightarrow> HeikenAshiBar list" where
  "ha_from prev [] = []"
| "ha_from prev (b # bs) =
     (let h = ha_bar ((HA_Open prev + HA_Close prev) / 2) b in h # ha_from h bs)"

text \<open>
  Modelled from the spec: the missing Heiken-Ashi transform of a series. Section 3: one
  Heiken-Ashi bar per bar, \<open>ha_open[0]\<close> seeded from \<open>(open[0] + close[0]) / 2\<close>.
\<close>

fun heiken_ashi :: "Bar list \<Rightarrow> HeikenAshiBar list" where
  "heiken_ashi [] = []"
| "heiken_ashi (b # bs) =
     (let h = ha_bar ((Open b + Close b) / 2) b in h # ha_from h bs)"


section \<open>Properties of the profit and loss function\<close>

lemma js_sub_NaN_right: "js_sub a NaN = NaN"
  by (cases a) simp_all

lemmas round_double_unfold =
  round_double_def round_magnitude_def floor_log2_def pow2_def round_half_even_def
  bit_length.simps Let_def

text \<open>
  Differences that are doubles come out exact, and others are rounded as the language
  rounds them: \<open>1e16 - 1\<close> is \<open>1e16\<close>, and the largest double minus its negative is
  \<open>Infinity\<close>.
\<close>

lemma round_double_examples:
  "round_double 20 = Num 20"
  "round_double (- 20) = Num (- 20)"
  "round_double (81 / 4) = Num (81 / 4)"
  "round_double 9999999999999999 = Num 10000000000000000"
  by (simp_all add: round_double_unfold)

lemma js_sub_examples:
  "js_sub (Num 120) (Num 100) = Num 20"
  "js_sub (Num 100) (Num 120) = Num (- 20)"
  "js_sub (Num 120.75) (Num 100.5) = Num 20.25"
  "js_sub (Num 10000000000000000) (Num 1) = Num 10000000000000000"
  "js_sub (Num ((2 ^ 53 - 1) * 2 ^ 971)) (Num (- ((2 ^ 53 - 1) * 2 ^ 971))) = PosInf"
  by (simp_all add: round_double_unfold)

text \<open>
  Claim C1. For a trade whose status is \<open>'CLOSED'\<close> and whose exit price is present (neither
  \<open>null\<close> nor \<open>undefined\<close>), \<open>calcPnL\<close> returns the exit price minus the entry price for a
  \<open>'LONG'\<close> trade and the entry price minus the exit price for a \<open>'SHORT'\<close> trade, the
  difference being the language's subtraction of doubles on the two prices as
  \<open>parseFloat\<close> reads them: a price that is a number is that number, a price that is a
  string is what the string reads as, and an entry price that is neither reads as \<open>NaN\<close>.
  In particular entry 100 and exit 120 give 20 for a \<open>'LONG'\<close> trade and -20 for a
  \<open>'SHORT'\<close> trade, and the strings \<open>'100.50'\<close> and \<open>'120.75'\<close>, read as 100.5 and
  120.75, give 20.25 for a \<open>'LONG'\<close> trade.
\<close>

theorem calcPnL_closed:
  assumes "status t = JStr ''CLOSED''" and "\<not> loose_eq_null (exit_price t)"
  shows "(trade_type t = JStr ''LONG'' \<longrightarrow>
            calcPnL pf t = JNum (js_sub (parseFloat pf (exit_price t)) (parseFloat pf (entry_price t))))
       \<and> (trade_type t = JStr ''SHORT'' \<longrightarrow>
            calcPnL pf t = JNum (js_sub (parseFloat pf (entry_price t)) (parseFloat pf (exit_price t))))
       \<and> (\<forall>x e. exit_price t = JNum (Num x) \<and> entry_price t = JNum (Num e) \<longrightarrow>
            (trade_type t = JStr ''LONG'' \<longrightarrow> calcPnL pf t = JNum (round_double (x - e)))
          \<and> (trade_type t = JStr ''SHORT'' \<longrightarrow> calcPnL pf t = JNum (round_double (e - x))))
       \<and> (\<forall>xs es. exit_price t = JStr xs \<and> entry_price t = JStr es \<longrightarrow>
            (trade_type t = JStr ''LONG'' \<longrightarrow> calcPnL pf t = JNum (js_sub (pf xs) (pf es)))
          \<and> (trade_type t = JStr ''SHORT'' \<longrightarrow> calcPnL pf t = JNum (js_sub (pf es) (pf xs))))
       \<and> ((\<forall>n. entry_price t \<noteq> JNum n) \<and> (\<forall>es. entry_price t \<noteq> JStr es) \<longrightarrow>
            (trade_type t = JStr ''LONG'' \<or> trade_type t = JStr ''SHORT'' \<longrightarrow>
               calcPnL pf t = JNum NaN))
       \<and> calcPnL pf \<lparr>trade_type = JStr ''LONG'', status = JStr ''CLOSED'',
                      entry_price = JNum (Num 100), exit_price = JNum (Num 120)\<rparr> = JNum (Num 20)
       \<and> calcPnL pf \<lparr>trade_type = JStr ''SHORT'', status = JStr ''CLOSED'',
                      entry_price = JNum (Num 100), exit_price = JNum (Num 120)\<rparr> = JNum (Num (- 20))
       \<and> (pf ''100.50'' = Num 100.5 \<and> pf ''120.75'' = Num 120.75 \<longrightarrow>
            calcPnL pf \<lparr>trade_type = JStr ''LONG'', status = JStr ''CLOSED'',
                         entry_price = JStr ''100.50'', exit_price = JStr ''120.75''\<rparr>
              = JNum (Num 20.25))"
proof -
  have long: "trade_type t = JStr ''LONG'' \<longrightarrow>
      calcPnL pf t = JNum (js_sub (parseFloat pf (exit_price t)) (parseFloat pf (entry_price t)))"
    using assms by (simp add: calcPnL_def Let_def)
  have short: "trade_type t = JStr ''SHORT'' \<longrightarrow>
      calcPnL pf t = JNum (js_sub (parseFloat pf (entry_price t)) (parseFloat pf (exit_price t)))"
    using assms by (simp add: calcPnL_def Let_def)
  have nums: "\<forall>x e. exit_price t = JNum (Num x) \<and> entry_price t = JNum (Num e) \<longrightarrow>
            (trade_type t = JStr ''LONG'' \<longrightarrow> calcPnL pf t = JNum (round_double (x - e)))
          \<and> (trade_type t = JStr ''SHORT'' \<longrightarrow> calcPnL pf t = JNum (round_double (e - x)))"
    using assms by (simp add: calcPnL_def Let_def)
  have strs: "\<forall>xs es. exit_price t = JStr xs \<and> entry_price t = JStr es \<longrightarrow>
            (trade_type t = JStr ''LONG'' \<longrightarrow> calcPnL pf t = JNum (js_sub (pf xs) (pf es)))
          \<and> (trade_type t = JStr ''SHORT'' \<longrightarrow> calcPnL pf t = JNum (js_sub (pf es) (pf xs)))"
    using assms by (simp add: calcPnL_def Let_def)
  have other: "(\<forall>n. entry_price t \<noteq> JNum n) \<and> (\<forall>es. entry_price t \<noteq> JStr es) \<longrightarrow>
            (trade_type t = JStr ''LONG'' \<or> trade_type t = JStr ''SHORT'' \<longrightarrow>
               calcPnL pf t = JNum NaN)"
    using assms
    by (cases "entry_price t") (auto simp add: calcPnL_def Let_def js_sub_NaN_right)
  have i1: "calcPnL pf \<lparr>trade_type = JStr ''LONG'', status = JStr ''CLOSED'',
                      entry_price = JNum (Num 100), exit_price = JNum (Num 120)\<rparr> = JNum (Num 20)"
    by (simp add: calcPnL_def Let_def round_double_examples)
  have i2: "calcPnL pf \<lparr>trade_type = JStr ''SHORT'', status = JStr ''CLOSED'',
                      entry_price = JNum (Num 100), exit_price = JNum (Num 120)\<rparr> = JNum (Num (- 20))"
    by (simp add: calcPnL_def Let_def round_double_examples)
  have i3: "pf ''100.50'' = Num 100.5 \<and> pf ''120.75'' = Num 120.75 \<longrightarrow>
            calcPnL pf \<lparr>trade_type = JStr ''LONG'', status = JStr ''CLOSED'',
                         entry_price = JStr ''100.50'', exit_price = JStr ''120.75''\<rparr>
              = JNum (Num 20.25)"
    by (simp add: calcPnL_def Let_def round_double_examples)
  from long short nums strs other i1 i2 i3 show ?thesis by blast
qed

theorem calcPnL_closed_witness:
  "calcPnL (\<lambda>s. if s = ''100.50'' then Num 100.5 else if s = ''120.75'' then Num 120.75 else NaN)
      \<lparr>trade_type = JStr ''LONG'', status = JStr ''CLOSED'',
        entry_price = JStr ''100.50'', exit_price = JStr ''120.75''\<rparr> = JNum (Num 20.25)
   \<and> calcPnL (\<lambda>s. if s = ''100.50'' then Num 100.5 else if s = ''120.75'' then Num 120.75 else NaN)
      \<lparr>trade_type = JStr ''LONG'', status = JStr ''CLOSED'',
        entry_price = JNum (Num 100), exit_price = JNum (Num 120)\<rparr> = JNum (Num 20)
   \<and> calcPnL (\<lambda>s. if s = ''100.50'' then Num 100.5 else if s = ''120.75'' then Num 120.75 else NaN)
      \<lparr>trade_type = JStr ''SHORT'', status = JStr ''CLOSED'',
        entry_price = JNum (Num 100), exit_price = JNum (Num 120)\<rparr> = JNum (Num (- 20))"
  using calcPnL_closed
    [of "\<lparr>trade_type = JStr ''LONG'', status = JStr ''CLOSED'',
          entry_price = JStr ''100.50'', exit_price = JStr ''120.75''\<rparr>"
        "\<lambda>s. if s = ''100.50'' then Num 100.5 else if s = ''120.75'' then Num 120.75 else NaN"]
  by (simp add: round_double_examples)

text \<open>
  Claim C3. For a trade whose status is not \<open>'CLOSED'\<close>, or whose exit price is absent
  (\<open>null\<close> or \<open>undefined\<close>), \<open>calcPnL\<close> returns \<open>null\<close>, which is not the number zero, of
  either sign.
\<close>

theorem calcPnL_not_applicable:
  assumes "status t \<noteq> JStr ''CLOSED'' \<or> exit_price t = JNull \<or> exit_price t = JUndefined"
  shows "calcPnL pf t = JNull \<and> calcPnL pf t \<noteq> JNum (Num 0)
       \<and> calcPnL pf t \<noteq> JNum NegZero"
  using assms by (auto simp add: calcPnL_def)

theorem calcPnL_not_applicable_witness:
  "calcPnL (\<lambda>s. NaN) \<lparr>trade_type = JStr ''LONG'', status = JStr ''OPEN'',
                       entry_price = JNum (Num 100), exit_price = JNull\<rparr> = JNull
   \<and> calcPnL (\<lambda>s. NaN) \<lparr>trade_type = JStr ''LONG'', status = JStr ''OPEN'',
                       entry_price = JNum (Num 100), exit_price = JNull\<rparr> \<noteq> JNum (Num 0)"
  using calcPnL_not_applicable [of "\<lparr>trade_type = JStr ''LONG'', status = JStr ''OPEN'',
                             entry_price = JNum (Num 100), exit_price = JNull\<rparr>" "\<lambda>s. NaN"]
  by simp

text \<open>
  Claim C9. For a trade whose status is \<open>'CLOSED'\<close> and whose exit price is present, but
  whose trade type is neither \<open>'LONG'\<close> nor \<open>'SHORT'\<close>, \<open>calcPnL\<close> returns \<open>null\<close>, the result
  it gives for an open trade: not a number, and the function has no failing branch.
\<close>

theorem calcPnL_unknown_type:
  assumes "status t = JStr ''CLOSED''" and "\<not> loose_eq_null (exit_price t)"
    and "trade_type t \<noteq> JStr ''LONG''" and "trade_type t \<noteq> JStr ''SHORT''"
  shows "calcPnL pf t = JNull
       \<and> calcPnL pf t = calcPnL pf (t\<lparr>status := JStr ''OPEN''\<rparr>)
       \<and> (\<forall>n. calcPnL pf t \<noteq> JNum n)"
  using assms by (simp add: calcPnL_def Let_def)

theorem calcPnL_unknown_type_witness:
  "calcPnL (\<lambda>s. NaN) \<lparr>trade_type = JStr ''SPREAD'', status = JStr ''CLOSED'',
                       entry_price = JNum (Num 100), exit_price = JNum (Num 120)\<rparr> = JNull"
  using calcPnL_unknown_type [of "\<lparr>trade_type = JStr ''SPREAD'', status = JStr ''CLOSED'',
                             entry_price = JNum (Num 100), exit_price = JNum (Num 120)\<rparr>" "\<lambda>s. NaN"]
  by simp


section \<open>Properties of the watchlist editor\<close>

lemma trim_blank:
  assumes "\<forall>c \<in> set s. is_space c"
  shows "trim s = []"
proof -
  from assms have h: "dropWhile is_space s = []"
    by simp
  show ?thesis
    unfolding trim_def h by simp
qed

lemma str_eq_iff: "str a = str b \<longleftrightarrow> a = b"
  by (simp add: str_def inj_map_eq_map [OF inj_of_char])

lemma str_empty_iff: "str a = [] \<longleftrightarrow> a = []"
  by (simp add: str_def)

lemma editor_step_distinct:
  assumes "distinct (tickers s)" and "\<forall>l. ev = Loaded l \<longrightarrow> distinct l"
  shows "distinct (tickers (editor_step up s ev))"
  using assms by (cases ev) (simp_all add: addTicker_def removeTicker_def Let_def)

lemma foldl_editor_step_distinct:
  "distinct (tickers s) \<Longrightarrow> \<forall>l. Loaded l \<in> set evs \<longrightarrow> distinct l \<Longrightarrow>
   distinct (tickers (foldl (editor_step up) s evs))"
proof (induction evs arbitrary: s)
  case Nil
  then show ?case by simp
next
  case (Cons ev evs)
  have "distinct (tickers (editor_step up s ev))"
    using Cons.prems by (intro editor_step_distinct) auto
  moreover have "\<forall>l. Loaded l \<in> set evs \<longrightarrow> distinct l"
    using Cons.prems(2) by simp
  ultimately show ?case
    using Cons.IH by simp
qed

text \<open>
  Claim C10, as amended. \<open>addTicker\<close> works on the trimmed, upper-cased text of the
  field: on blank text it changes nothing; otherwise it leaves the list as it is when the
  symbol is in the rendered list, and appends the symbol when it is not. Hence, with a
  render between the events, a list without duplicates stays without duplicates under
  every sequence of add and remove operations, also when lists without duplicates are
  loaded in between; and so does the list of every state reached from the initial, empty
  one.
\<close>

theorem addTicker_keeps_distinct:
  "((\<forall>c \<in> set (input r). is_space c) \<longrightarrow> addTicker up r s = s)
   \<and> (toUpperCase up (trim (input r)) \<noteq> [] \<and> toUpperCase up (trim (input r)) \<in> set (tickers r)
        \<longrightarrow> tickers (addTicker up r s) = tickers s)
   \<and> (toUpperCase up (trim (input r)) \<noteq> [] \<and> toUpperCase up (trim (input r)) \<notin> set (tickers r)
        \<longrightarrow> tickers (addTicker up r s) = tickers s @ [toUpperCase up (trim (input r))])
   \<and> (distinct (tickers s) \<and> (\<forall>l. Loaded l \<in> set evs \<longrightarrow> distinct l)
        \<longrightarrow> distinct (tickers (editor_run up evs s)))
   \<and> ((\<forall>l. Loaded l \<in> set evs \<longrightarrow> distinct l)
        \<longrightarrow> distinct (tickers (editor_run up evs editor_init)))"
proof -
  have blank: "(\<forall>c \<in> set (input r). is_space c) \<longrightarrow> addTicker up r s = s"
    by (simp add: addTicker_def trim_blank toUpperCase_def)
  have present: "toUpperCase up (trim (input r)) \<noteq> []
        \<and> toUpperCase up (trim (input r)) \<in> set (tickers r)
        \<longrightarrow> tickers (addTicker up r s) = tickers s"
    by (simp add: addTicker_def Let_def)
  have absent: "toUpperCase up (trim (input r)) \<noteq> []
        \<and> toUpperCase up (trim (input r)) \<notin> set (tickers r)
        \<longrightarrow> tickers (addTicker up r s) = tickers s @ [toUpperCase up (trim (input r))]"
    by (simp add: addTicker_def Let_def)
  have inv: "distinct (tickers s) \<and> (\<forall>l. Loaded l \<in> set evs \<longrightarrow> distinct l)
        \<longrightarrow> distinct (tickers (editor_run up evs s))"
    by (simp add: editor_run_def foldl_editor_step_distinct)
  have init: "(\<forall>l. Loaded l \<in> set evs \<longrightarrow> distinct l)
        \<longrightarrow> distinct (tickers (editor_run up evs editor_init))"
    by (simp add: editor_run_def editor_init_def foldl_editor_step_distinct)
  from blank present absent inv init show ?thesis by blast
qed

lemma upper_examples:
  "toUpperCase ascii_upper (trim (str '' aapl '')) = str ''AAPL''"
  "toUpperCase ascii_upper (trim (str '' tcs.ns '')) = str ''TCS.NS''"
  "toUpperCase ascii_upper (trim (str ''aapl'')) = str ''AAPL''"
  "toUpperCase ascii_upper (trim (str ''AAPL '')) = str ''AAPL''"
  "toUpperCase ascii_upper (trim (str ''tcs.ns'')) = str ''TCS.NS''"
  "toUpperCase ascii_upper (trim (str ''b'')) = str ''B''"
  "toUpperCase ascii_upper (trim [0xA0, 0x2003]) = []"
  by (simp_all add: toUpperCase_def trim_def is_space_def ascii_upper_def str_def)

theorem addTicker_keeps_distinct_witness:
  "addTicker ascii_upper \<lparr>tickers = [str ''AAPL''], input = [0x20, 0xA0]\<rparr>
       \<lparr>tickers = [str ''AAPL''], input = [0x20, 0xA0]\<rparr>
     = \<lparr>tickers = [str ''AAPL''], input = [0x20, 0xA0]\<rparr>
   \<and> tickers (addTicker ascii_upper \<lparr>tickers = [str ''AAPL''], input = str '' aapl ''\<rparr>
                \<lparr>tickers = [str ''AAPL''], input = str '' aapl ''\<rparr>) = [str ''AAPL'']
   \<and> tickers (addTicker ascii_upper \<lparr>tickers = [str ''AAPL''], input = str '' tcs.ns ''\<rparr>
                \<lparr>tickers = [str ''AAPL''], input = str '' tcs.ns ''\<rparr>)
       = [str ''AAPL'', str ''TCS.NS'']
   \<and> distinct (tickers (editor_run ascii_upper
        [SetInput (str ''aapl''), AddTicker, Loaded [str ''TCS.NS'', str ''INFY.NS''],
         SetInput (str ''AAPL ''), AddTicker, RemoveTicker (str ''TCS.NS''),
         SetInput (str ''tcs.ns''), AddTicker]
        editor_init))"
  using addTicker_keeps_distinct
      [of "\<lparr>tickers = [str ''AAPL''], input = [0x20, 0xA0]\<rparr>" ascii_upper
          "\<lparr>tickers = [str ''AAPL''], input = [0x20, 0xA0]\<rparr>" "[]"]
    addTicker_keeps_distinct
      [of "\<lparr>tickers = [str ''AAPL''], input = str '' aapl ''\<rparr>" ascii_upper
          "\<lparr>tickers = [str ''AAPL''], input = str '' aapl ''\<rparr>" "[]"]
    addTicker_keeps_distinct
      [of "\<lparr>tickers = [str ''AAPL''], input = str '' tcs.ns ''\<rparr>" ascii_upper
          "\<lparr>tickers = [str ''AAPL''], input = str '' tcs.ns ''\<rparr>" "[]"]
    addTicker_keeps_distinct
      [of editor_init ascii_upper editor_init
          "[SetInput (str ''aapl''), AddTicker, Loaded [str ''TCS.NS'', str ''INFY.NS''],
            SetInput (str ''AAPL ''), AddTicker, RemoveTicker (str ''TCS.NS''),
            SetInput (str ''tcs.ns''), AddTicker]"]
  by (simp add: upper_examples is_space_def str_eq_iff str_empty_iff editor_init_def)

text \<open>
  Claim C10 as stated has no condition on the list that the add and remove operations
  start from. The mount effect stores the array of the response as it is; when that is
  \<open>['A', 'A']\<close>, the list after adding \<open>b\<close> is \<open>['A', 'A', 'B']\<close>, and after removing \<open>B\<close>
  again it is \<open>['A', 'A']\<close>.
\<close>

theorem addTicker_duplicates_counterexample:
  "editor_run ascii_upper [Loaded [str ''A'', str ''A'']] editor_init
     = \<lparr>tickers = [str ''A'', str ''A''], input = []\<rparr>
   \<and> tickers (editor_run ascii_upper [SetInput (str ''b''), AddTicker]
                \<lparr>tickers = [str ''A'', str ''A''], input = []\<rparr>)
       = [str ''A'', str ''A'', str ''B'']
   \<and> \<not> distinct (tickers (editor_run ascii_upper [SetInput (str ''b''), AddTicker]
                \<lparr>tickers = [str ''A'', str ''A''], input = []\<rparr>))
   \<and> \<not> distinct (tickers (editor_run ascii_upper
                [SetInput (str ''b''), AddTicker, RemoveTicker (str ''B'')]
                \<lparr>tickers = [str ''A'', str ''A''], input = []\<rparr>))"
  by (simp add: editor_run_def editor_init_def addTicker_def removeTicker_def Let_def
        upper_examples str_eq_iff str_empty_iff)

text \<open>
  The test \<open>tickers.includes(sym)\<close> looks at the list of the render and the append at the
  list of the state. When an update is still waiting for its render, the two differ, and
  a symbol that the state already holds is appended.
\<close>

lemma addTicker_pending_update:
  "tickers (addTicker ascii_upper \<lparr>tickers = [], input = str ''aapl''\<rparr>
              \<lparr>tickers = [str ''AAPL''], input = str ''aapl''\<rparr>)
     = [str ''AAPL'', str ''AAPL'']"
  by (simp add: addTicker_def Let_def upper_examples str_empty_iff)


section \<open>Properties of position sizing\<close>

lemma floor_div_bounds:
  fixes x d :: real
  assumes "0 < d"
  shows "of_int \<lfloor>x / d\<rfloor> * d \<le> x" and "x < (of_int \<lfloor>x / d\<rfloor> + 1) * d"
proof -
  have lo: "of_int \<lfloor>x / d\<rfloor> \<le> x / d"
    by (rule of_int_floor_le)
  show "of_int \<lfloor>x / d\<rfloor> * d \<le> x"
    using lo pos_le_divide_eq [OF assms, of "of_int \<lfloor>x / d\<rfloor>" x] by blast
  have hi: "x / d < of_int \<lfloor>x / d\<rfloor> + 1"
    by linarith
  show "x < (of_int \<lfloor>x / d\<rfloor> + 1) * d"
    using hi pos_divide_less_eq [OF assms, of x "of_int \<lfloor>x / d\<rfloor> + 1"] by blast
qed

text \<open>
  Claim C5. For positive account size, risk percent, entry price and stop-loss price
  with entry different from stop-loss, \<open>calculate_position_size\<close> returns a plan with
  \<open>risk_amount = account_size * risk_percent / 100\<close>,
  \<open>risk_per_share = |entry_price - stop_loss_price|\<close>,
  \<open>max_shares = floor (risk_amount / risk_per_share)\<close>, hence
  \<open>max_shares * risk_per_share \<le> risk_amount < (max_shares + 1) * risk_per_share\<close>, and
  \<open>total_investment = max_shares * entry_price\<close>.
\<close>

theorem calculate_position_size_plan:
  assumes "0 < account_size" and "0 < risk_percent" and "0 < entry_p" and "0 < stop_loss_p"
    and "entry_p \<noteq> stop_loss_p"
  shows "\<exists>plan. calculate_position_size account_size risk_percent entry_p stop_loss_p = Inr plan
           \<and> risk_amount plan = account_size * risk_percent / 100
           \<and> risk_per_share plan = \<bar>entry_p - stop_loss_p\<bar>
           \<and> max_shares plan = \<lfloor>risk_amount plan / risk_per_share plan\<rfloor>
           \<and> of_int (max_shares plan) * risk_per_share plan \<le> risk_amount plan
           \<and> risk_amount plan < (of_int (max_shares plan) + 1) * risk_per_share plan
           \<and> total_investment plan = of_int (max_shares plan) * entry_p"
proof -
  have d: "0 < \<bar>entry_p - stop_loss_p\<bar>"
    using assms(5) by simp
  show ?thesis
    using assms floor_div_bounds [OF d, of "account_size * risk_percent / 100"]
    by (simp add: calculate_position_size_def Let_def)
qed

theorem calculate_position_size_plan_witness:
  "\<exists>plan. calculate_position_size 10000 1 100 95 = Inr plan
      \<and> risk_amount plan = 100 \<and> risk_per_share plan = 5 \<and> max_shares plan = 20
      \<and> total_investment plan = 2000"
  using calculate_position_size_plan [of 10000 1 100 95] by auto

text \<open>
  Claim C6. For positive inputs with the entry price equal to the stop-loss price,
  \<open>calculate_position_size\<close> fails with \<open>InvalidRiskParametersError\<close>, a validation
  failure in the taxonomy, and returns no plan.
\<close>

theorem calculate_position_size_equal_prices:
  assumes "0 < account_size" and "0 < risk_percent" and "0 < entry_p"
  shows "calculate_position_size account_size risk_percent entry_p entry_p
           = Inl InvalidRiskParametersError
       \<and> is_validation_failure InvalidRiskParametersError
       \<and> (\<forall>plan. calculate_position_size account_size risk_percent entry_p entry_p \<noteq> Inr plan)"
  using assms by (simp add: calculate_position_size_def)

theorem calculate_position_size_equal_prices_witness:
  "calculate_position_size 10000 1 100 100 = Inl InvalidRiskParametersError"
  using calculate_position_size_equal_prices [of 10000 1 100] by simp

text \<open>
  Claim C8. Every request that either calculator form issues carries \<open>risk = 1\<close>, whatever
  the fields hold, while \<open>calculate_position_size\<close> takes the risk percent as an argument:
  for valid inputs it succeeds for every positive risk percent \<open>r\<close>, with
  \<open>risk_amount = account_size * r / 100\<close>.
\<close>

theorem calculator_requests_risk_one:
  "(calculate num f = Issued p \<longrightarrow> risk p = Num 1)
   \<and> (handleCalculatePositionSize pf f = Issued p \<longrightarrow> risk p = Num 1)
   \<and> (0 < a \<and> 0 < r \<and> 0 < e \<and> 0 < s \<and> e \<noteq> s \<longrightarrow>
        (\<exists>plan. calculate_position_size a r e s = Inr plan \<and> risk_amount plan = a * r / 100))"
proof -
  have c: "calculate num f = Issued p \<longrightarrow> risk p = Num 1"
    by (auto simp add: calculate_def split: if_splits)
  have h: "handleCalculatePositionSize pf f = Issued p \<longrightarrow> risk p = Num 1"
    by (auto simp add: handleCalculatePositionSize_def Let_def split: if_splits)
  have b: "0 < a \<and> 0 < r \<and> 0 < e \<and> 0 < s \<and> e \<noteq> s \<longrightarrow>
        (\<exists>plan. calculate_position_size a r e s = Inr plan \<and> risk_amount plan = a * r / 100)"
    by (simp add: calculate_position_size_def Let_def)
  from c h b show ?thesis by blast
qed

theorem calculator_requests_risk_one_witness:
  "calculate (\<lambda>v. if v = str ''10000'' then Num 10000 else if v = str ''100'' then Num 100
                   else if v = str ''95'' then Num 95 else NaN)
      \<lparr>accountSize = str ''10000'', entryPrice = str ''100'', stopLossPrice = str ''95''\<rparr>
     = Issued \<lparr>account = Num 10000, risk = Num 1, entry = Num 100, sl = Num 95\<rparr>
   \<and> handleCalculatePositionSize
        (\<lambda>v. if v = str ''10000'' then Num 10000 else if v = str ''100'' then Num 100
              else if v = str ''95'' then Num 95 else NaN)
        \<lparr>accountSize = str ''10000'', entryPrice = str ''100'', stopLossPrice = str ''95''\<rparr>
     = Issued \<lparr>account = Num 10000, risk = Num 1, entry = Num 100, sl = Num 95\<rparr>
   \<and> (\<exists>plan. calculate_position_size 10000 2 100 95 = Inr plan \<and> risk_amount plan = 200)"
  using calculator_requests_risk_one
    [where num = "\<lambda>v. if v = str ''10000'' then Num 10000 else if v = str ''100'' then Num 100
                       else if v = str ''95'' then Num 95 else NaN"
       and pf = "\<lambda>v. if v = str ''10000'' then Num 10000 else if v = str ''100'' then Num 100
                       else if v = str ''95'' then Num 95 else NaN"
       and f = "\<lparr>accountSize = str ''10000'', entryPrice = str ''100'',
                  stopLossPrice = str ''95''\<rparr>"
       and p = "\<lparr>account = Num 10000, risk = Num 1, entry = Num 100, sl = Num 95\<rparr>"
       and a = 10000 and r = 2 and e = 100 and s = 95]
  by (simp add: calculate_def isInvalid_def handleCalculatePositionSize_def trim_def
        is_space_def str_def)


section \<open>Properties of the consensus engine\<close>

lemma count_votes_total:
  "count_votes BUY rs + count_votes SELL rs + count_votes HOLD rs = length rs"
proof (induction rs)
  case Nil
  show ?case by (simp add: count_votes_def)
next
  case (Cons r rs)
  then show ?case
    by (cases "signal r") (simp_all add: count_votes_def)
qed

text \<open>
  Claim C2. For four indicator results, the final signal is BUY exactly when at least
  two vote BUY and more vote BUY than SELL, SELL exactly when at least two vote SELL and
  more vote SELL than BUY, and HOLD in every other case; so equal BUY and SELL votes
  give HOLD, and so do fewer than two votes for each of BUY and SELL. The vote counts
  are the numbers of results with each signal, and they add up to four.
\<close>

theorem get_final_signal_rule:
  assumes "length rs = 4"
  shows "(final_signal (get_final_signal rs) = BUY \<longleftrightarrow>
            buy_votes (get_final_signal rs) \<ge> 2
            \<and> buy_votes (get_final_signal rs) > sell_votes (get_final_signal rs))
       \<and> (final_signal (get_final_signal rs) = SELL \<longleftrightarrow>
            sell_votes (get_final_signal rs) \<ge> 2
            \<and> sell_votes (get_final_signal rs) > buy_votes (get_final_signal rs))
       \<and> (\<not> (buy_votes (get_final_signal rs) \<ge> 2
               \<and> buy_votes (get_final_signal rs) > sell_votes (get_final_signal rs))
          \<and> \<not> (sell_votes (get_final_signal rs) \<ge> 2
               \<and> sell_votes (get_final_signal rs) > buy_votes (get_final_signal rs))
          \<longrightarrow> final_signal (get_final_signal rs) = HOLD)
       \<and> (buy_votes (get_final_signal rs) = sell_votes (get_final_signal rs)
          \<longrightarrow> final_signal (get_final_signal rs) = HOLD)
       \<and> (buy_votes (get_final_signal rs) < 2 \<and> sell_votes (get_final_signal rs) < 2
          \<longrightarrow> final_signal (get_final_signal rs) = HOLD)
       \<and> buy_votes (get_final_signal rs) = length (filter (\<lambda>r. signal r = BUY) rs)
       \<and> sell_votes (get_final_signal rs) = length (filter (\<lambda>r. signal r = SELL) rs)
       \<and> hold_votes (get_final_signal rs) = length (filter (\<lambda>r. signal r = HOLD) rs)
       \<and> buy_votes (get_final_signal rs) + sell_votes (get_final_signal rs)
           + hold_votes (get_final_signal rs) = 4"
  using assms count_votes_total [of rs]
  by (simp add: get_final_signal_def Let_def count_votes_def)

theorem get_final_signal_rule_witness:
  "final_signal (get_final_signal
      [\<lparr>name = ''heiken_ashi'', signal = BUY, score = 1, details = []\<rparr>,
       \<lparr>name = ''bollinger_bands'', signal = SELL, score = - 1, details = []\<rparr>,
       \<lparr>name = ''macd'', signal = HOLD, score = 0, details = []\<rparr>,
       \<lparr>name = ''rsi'', signal = SELL, score = - 1, details = []\<rparr>]) = SELL
   \<and> final_signal (get_final_signal
      [\<lparr>name = ''heiken_ashi'', signal = BUY, score = 1, details = []\<rparr>,
       \<lparr>name = ''bollinger_bands'', signal = SELL, score = - 1, details = []\<rparr>,
       \<lparr>name = ''macd'', signal = BUY, score = 1, details = []\<rparr>,
       \<lparr>name = ''rsi'', signal = SELL, score = - 1, details = []\<rparr>]) = HOLD"
  using get_final_signal_rule
      [of "[\<lparr>name = ''heiken_ashi'', signal = BUY, score = 1, details = []\<rparr>,
       \<lparr>name = ''bollinger_bands'', signal = SELL, score = - 1, details = []\<rparr>,
       \<lparr>name = ''macd'', signal = HOLD, score = 0, details = []\<rparr>,
       \<lparr>name = ''rsi'', signal = SELL, score = - 1, details = []\<rparr>]"]
    get_final_signal_rule
      [of "[\<lparr>name = ''heiken_ashi'', signal = BUY, score = 1, details = []\<rparr>,
       \<lparr>name = ''bollinger_bands'', signal = SELL, score = - 1, details = []\<rparr>,
       \<lparr>name = ''macd'', signal = BUY, score = 1, details = []\<rparr>,
       \<lparr>name = ''rsi'', signal = SELL, score = - 1, details = []\<rparr>]"]
  by simp


section \<open>Properties of the Heiken-Ashi transform\<close>

lemma ha_from_length: "length (ha_from prev bs) = length bs"
  by (induction bs arbitrary: prev) (simp_all add: Let_def)

lemma ha_from_nth:
  "i < length bs \<Longrightarrow>
   ha_from prev bs ! i =
     ha_bar ((HA_Open (if i = 0 then prev else ha_from prev bs ! (i - 1))
              + HA_Close (if i = 0 then prev else ha_from prev bs ! (i - 1))) / 2) (bs ! i)"
proof (induction bs arbitrary: prev i)
  case Nil
  then show ?case by simp
next
  case (Cons b bs)
  show ?case
  proof (cases i)
    case 0
    then show ?thesis by (simp add: Let_def)
  next
    case (Suc j)
    with Cons.prems have j: "j < length bs" by simp
    show ?thesis
      using Cons.IH [OF j, of "ha_bar ((HA_Open prev + HA_Close prev) / 2) b"] Suc
      by (cases j) (simp_all add: Let_def)
  qed
qed

lemma heiken_ashi_length: "length (heiken_ashi bars) = length bars"
  by (cases bars) (simp_all add: Let_def ha_from_length)

lemma heiken_ashi_nth:
  "i < length bars \<Longrightarrow>
   heiken_ashi bars ! i =
     ha_bar (if i = 0 then (Open (bars ! 0) + Close (bars ! 0)) / 2
             else (HA_Open (heiken_ashi bars ! (i - 1)) + HA_Close (heiken_ashi bars ! (i - 1))) / 2)
       (bars ! i)"
proof (cases bars)
  case Nil
  assume "i < length bars"
  with Nil show ?thesis by simp
next
  case (Cons b bs)
  assume i: "i < length bars"
  show ?thesis
  proof (cases i)
    case 0
    with Cons show ?thesis by (simp add: Let_def)
  next
    case (Suc j)
    with i Cons have j: "j < length bs" by simp
    show ?thesis
      using ha_from_nth [OF j, of "ha_bar ((Open b + Close b) / 2) b"] Suc Cons
      by (cases j) (simp_all add: Let_def)
  qed
qed

text \<open>
  Claim C7. The transform gives one Heiken-Ashi bar per bar, and at every index \<open>i\<close> of
  the series: \<open>HA_Close[i] = (Open[i] + High[i] + Low[i] + Close[i]) / 4\<close>;
  \<open>HA_Open[0] = (Open[0] + Close[0]) / 2\<close>;
  \<open>HA_Open[i] = (HA_Open[i-1] + HA_Close[i-1]) / 2\<close> for \<open>i \<ge> 1\<close>;
  \<open>HA_High[i] = max (High[i], HA_Open[i], HA_Close[i])\<close> and
  \<open>HA_Low[i] = min (Low[i], HA_Open[i], HA_Close[i])\<close>.
\<close>

theorem heiken_ashi_formulas:
  assumes "i < length bars"
  shows "length (heiken_ashi bars) = length bars
       \<and> HA_Close (heiken_ashi bars ! i)
           = (Open (bars ! i) + High (bars ! i) + Low (bars ! i) + Close (bars ! i)) / 4
       \<and> HA_Open (heiken_ashi bars ! 0) = (Open (bars ! 0) + Close (bars ! 0)) / 2
       \<and> (1 \<le> i \<longrightarrow> HA_Open (heiken_ashi bars ! i)
             = (HA_Open (heiken_ashi bars ! (i - 1)) + HA_Close (heiken_ashi bars ! (i - 1))) / 2)
       \<and> HA_High (heiken_ashi bars ! i)
           = max (High (bars ! i)) (max (HA_Open (heiken_ashi bars ! i)) (HA_Close (heiken_ashi bars ! i)))
       \<and> HA_Low (heiken_ashi bars ! i)
           = min (Low (bars ! i)) (min (HA_Open (heiken_ashi bars ! i)) (HA_Close (heiken_ashi bars ! i)))"
proof -
  from assms have z: "0 < length bars" by (cases bars) simp_all
  have first: "HA_Open (heiken_ashi bars ! 0) = (Open (bars ! 0) + Close (bars ! 0)) / 2"
    using heiken_ashi_nth [OF z] by (simp add: ha_bar_def Let_def)
  have nth: "heiken_ashi bars ! i =
     ha_bar (if i = 0 then (Open (bars ! 0) + Close (bars ! 0)) / 2
             else (HA_Open (heiken_ashi bars ! (i - 1)) + HA_Close (heiken_ashi bars ! (i - 1))) / 2)
       (bars ! i)"
    by (rule heiken_ashi_nth [OF assms])
  have cl: "HA_Close (heiken_ashi bars ! i)
           = (Open (bars ! i) + High (bars ! i) + Low (bars ! i) + Close (bars ! i)) / 4"
    by (subst nth) (simp add: ha_bar_def Let_def)
  have op: "1 \<le> i \<longrightarrow> HA_Open (heiken_ashi bars ! i)
             = (HA_Open (heiken_ashi bars ! (i - 1)) + HA_Close (heiken_ashi bars ! (i - 1))) / 2"
    by (subst nth) (simp add: ha_bar_def Let_def)
  have hi: "HA_High (heiken_ashi bars ! i)
           = max (High (bars ! i)) (max (HA_Open (heiken_ashi bars ! i)) (HA_Close (heiken_ashi bars ! i)))"
    by (subst (1 2 3) nth) (simp add: ha_bar_def Let_def)
  have lo: "HA_Low (heiken_ashi bars ! i)
           = min (Low (bars ! i)) (min (HA_Open (heiken_ashi bars ! i)) (HA_Close (heiken_ashi bars ! i)))"
    by (subst (1 2 3) nth) (simp add: ha_bar_def Let_def)
  from heiken_ashi_length first cl op hi lo show ?thesis by blast
qed

theorem heiken_ashi_formulas_witness:
  "heiken_ashi [\<lparr>Open = 10, High = 14, Low = 8, Close = 12\<rparr>,
                \<lparr>Open = 12, High = 16, Low = 11, Close = 13\<rparr>]
     = [\<lparr>HA_Open = 11, HA_High = 14, HA_Low = 8, HA_Close = 11\<rparr>,
        \<lparr>HA_Open = 11, HA_High = 16, HA_Low = 11, HA_Close = 13\<rparr>]
   \<and> HA_Open (heiken_ashi [\<lparr>Open = 10, High = 14, Low = 8, Close = 12\<rparr>,
                \<lparr>Open = 12, High = 16, Low = 11, Close = 13\<rparr>] ! 1) = (11 + 11) / 2"
  using heiken_ashi_formulas [of 1 "[\<lparr>Open = 10, High = 14, Low = 8, Close = 12\<rparr>,
                \<lparr>Open = 12, High = 16, Low = 11, Close = 13\<rparr>]"]
  by (simp add: ha_bar_def Let_def)


section \<open>Properties of the dashboard summaries\<close>

lemma fromEntries_map:
  assumes "\<And>t. fst (f t) = t"
  shows "foldl (\<lambda>m (k, v). m(k \<mapsto> v)) m (map f ts)
           = (\<lambda>k. if k \<in> set ts then Some (snd (f k)) else m k)"
proof (induction ts arbitrary: m)
  case Nil
  show ?case by simp
next
  case (Cons t ts)
  have "f t = (t, snd (f t))"
    using assms [of t] by (cases "f t") simp
  then have step: "(\<lambda>(k, v). m(k \<mapsto> v)) (f t) = m(t \<mapsto> snd (f t))"
    by (metis case_prod_conv)
  show ?case
    by (simp add: Cons.IH step fun_eq_iff del: fun_upd_apply) auto
qed

lemma summary_entry_fst: "fst (summary_entry get t) = t"
  by (simp add: summary_entry_def split: option.splits)

lemma fetchDashboardSummaries_apply:
  "fetchDashboardSummaries get TICKERS t
     = (if t \<in> set TICKERS then Some (snd (summary_entry get t)) else None)"
  by (simp add: fetchDashboardSummaries_def fromEntries_def
        fromEntries_map [of "summary_entry get", OF summary_entry_fst])

text \<open>
  Claim C4, as amended. For every list of tickers and every behaviour of the analysis
  service, the summaries hold one entry per requested ticker: for a ticker whose analysis
  resolves with a result object, an object with the \<open>final_signal\<close> of that result and
  nothing else of it; for a ticker whose request fails, the marker
  \<open>{final_signal: 'N/A'}\<close>. The entry of a ticker depends on the answer for that ticker
  alone, so a failure elsewhere does not change it, and the function returns a mapping
  for every input: it has no failing branch.
\<close>

theorem fetchDashboardSummaries_entries:
  "dom (fetchDashboardSummaries get TICKERS) = set TICKERS
   \<and> (\<forall>t \<in> set TICKERS. \<forall>props. get t = Some (JObj props) \<longrightarrow>
         fetchDashboardSummaries get TICKERS t
           = Some (JObj [(''final_signal'',
                          case map_of props ''final_signal'' of None \<Rightarrow> JUndefined | Some v \<Rightarrow> v)]))
   \<and> (\<forall>t \<in> set TICKERS. get t = None \<longrightarrow>
         fetchDashboardSummaries get TICKERS t = Some not_available)
   \<and> (\<forall>t. get' t = get t \<longrightarrow>
         fetchDashboardSummaries get' TICKERS t = fetchDashboardSummaries get TICKERS t)"
proof -
  have d: "dom (fetchDashboardSummaries get TICKERS) = set TICKERS"
    by (auto simp add: fetchDashboardSummaries_apply dom_def)
  have ok: "\<forall>t \<in> set TICKERS. \<forall>props. get t = Some (JObj props) \<longrightarrow>
         fetchDashboardSummaries get TICKERS t
           = Some (JObj [(''final_signal'',
                          case map_of props ''final_signal'' of None \<Rightarrow> JUndefined | Some v \<Rightarrow> v)])"
    by (simp add: fetchDashboardSummaries_apply summary_entry_def)
  have bad: "\<forall>t \<in> set TICKERS. get t = None \<longrightarrow>
         fetchDashboardSummaries get TICKERS t = Some not_available"
    by (simp add: fetchDashboardSummaries_apply summary_entry_def)
  have iso: "\<forall>t. get' t = get t \<longrightarrow>
         fetchDashboardSummaries get' TICKERS t = fetchDashboardSummaries get TICKERS t"
    by (simp add: fetchDashboardSummaries_apply summary_entry_def)
  from d ok bad iso show ?thesis by blast
qed

theorem fetchDashboardSummaries_entries_witness:
  "fetchDashboardSummaries example_service [''A'', ''B''] ''A''
     = Some (JObj [(''final_signal'', JStr ''BUY'')])
   \<and> fetchDashboardSummaries example_service [''A'', ''B''] ''B'' = Some not_available
   \<and> dom (fetchDashboardSummaries example_service [''A'', ''B'']) = {''A'', ''B''}"
  using fetchDashboardSummaries_entries [of example_service "[''A'', ''B'']" example_service]
  by (simp add: example_service_def example_result_def)

text \<open>
  Claim C4 as stated asks for the consensus result itself as the entry of a ticker whose
  analysis succeeds. For ticker \<open>A\<close> the service answers with a result that has a ticker,
  a final signal, a confidence and a score; the entry for \<open>A\<close> holds the final signal only.
\<close>

theorem fetchDashboardSummaries_counterexample:
  "example_service ''A'' = Some example_result
   \<and> fetchDashboardSummaries example_service [''A'', ''B''] ''A''
       = Some (JObj [(''final_signal'', JStr ''BUY'')])
   \<and> fetchDashboardSummaries example_service [''A'', ''B''] ''A'' \<noteq> Some example_result"
  by (simp add: fetchDashboardSummaries_def fromEntries_def summary_entry_def
        example_service_def example_result_def)

end
